theory Spec2Isabelle
  imports Complex_Main
begin

section \<open>Python values\<close>

text \<open>
  The weather payload is whatever the JSON decoder produced, so a field may hold any
  JSON value. \<open>JNull\<close> is Python's \<open>None\<close>. A Python string is kept as its UTF-8 bytes.
  A finite Python float is kept as the real number it denotes; every comparison the program
  makes between numbers is exact in Python, so it is the comparison of those reals. (NaN
  and the infinities, which the decoder accepts as an extension of JSON, are not values
  of this model.) A dictionary is a finite map from its keys; only look-ups are made.
\<close>

datatype json =
    JNull
  | JBool bool
  | JInt int
  | JFloat real
  | JStr string
  | JList "json list"
  | JObj "string \<Rightarrow> json option"

datatype py_error = TypeError | AttributeError | KeyError

text \<open>The numeric value of an operand of \<open>>=\<close> and \<open><=\<close>; \<open>bool\<close> is a subclass of \<open>int\<close>.\<close>

fun num_of :: "json \<Rightarrow> real option" where
  "num_of (JInt i) = Some (real_of_int i)"
| "num_of (JFloat x) = Some x"
| "num_of (JBool b) = Some (if b then 1 else 0)"
| "num_of JNull = None"
| "num_of (JStr s) = None"
| "num_of (JList xs) = None"
| "num_of (JObj m) = None"

text \<open>\<open>v >= c\<close> and \<open>v <= c\<close> for a numeric constant \<open>c\<close>: a \<open>TypeError\<close> unless \<open>v\<close> is a number.\<close>

definition py_ge :: "json \<Rightarrow> real \<Rightarrow> py_error + bool" where
  "py_ge v c = (case num_of v of None \<Rightarrow> Inl TypeError | Some x \<Rightarrow> Inr (c \<le> x))"

definition py_le :: "json \<Rightarrow> real \<Rightarrow> py_error + bool" where
  "py_le v c = (case num_of v of None \<Rightarrow> Inl TypeError | Some x \<Rightarrow> Inr (x \<le> c))"

text \<open>\<open>sub in s\<close> on strings: \<open>sub\<close> occurs in \<open>s\<close> as a contiguous block.\<close>

fun str_in :: "string \<Rightarrow> string \<Rightarrow> bool" where
  "str_in sub [] = (sub = [])"
| "str_in sub (c # cs) = (take (length sub) (c # cs) = sub \<or> str_in sub cs)"

text \<open>
  An f-string, kept as its literal segments and the values interpolated between them:
  how Python prints a float is not modelled, the value that is printed is.
\<close>

datatype piece = Lit string | Val json

type_synonym fstring = "piece list"

section \<open>Configuration\<close>

definition ELEVATION_MOUNTAIN_THRESHOLD :: real where
  "ELEVATION_MOUNTAIN_THRESHOLD = 1000"

definition WIND_STRONG_THRESHOLD :: real where
  "WIND_STRONG_THRESHOLD = 10.0"

text \<open>
  The literal \<open>0.1\<close> is the float nearest to one tenth, which lies just above it; the float
  just below that one lies under one tenth. So no float and no integer separates the two,
  and \<open>v >= 0.1\<close> in Python is \<open>1/10 \<le> v\<close> on the values a payload can hold.
\<close>

definition PRECIP_THRESHOLD_MM :: real where
  "PRECIP_THRESHOLD_MM = 0.1"

section \<open>analyze\_risk: parsing the payload\<close>

text \<open>The local variables read from the payload; they are returned under the key \<open>raw\<close>.\<close>

record raw_values =
  temp_c :: json
  wind_speed :: json
  rain_1h :: json
  snow_1h :: json
  weather_main :: string
  weather_desc :: string

text \<open>
  \<open>d.get(key, "").lower()\<close> on the first element of the \<open>weather\<close> list. The method
  \<open>str.lower\<close> is Python's, and is the parameter \<open>lower\<close>. Anything but a string
  under the key has no method \<open>lower\<close>.
\<close>

definition get_lower :: "(string \<Rightarrow> string) \<Rightarrow> (string \<Rightarrow> json option) \<Rightarrow> string
    \<Rightarrow> py_error + string" where
  "get_lower lower d key =
     (case d key of
        None \<Rightarrow> Inr (lower [])
      | Some (JStr s) \<Rightarrow> Inr (lower s)
      | Some _ \<Rightarrow> Inl AttributeError)"

text \<open>
  Lines 105 to 109. \<open>len\<close> fails on \<open>None\<close> and on numbers; a non-empty string gives a
  one-character string at index 0 and a string has no \<open>get\<close>; a non-empty dictionary
  has no key \<open>0\<close>, its keys being strings.
\<close>

definition parse_condition :: "(string \<Rightarrow> string) \<Rightarrow> (string \<Rightarrow> json option)
    \<Rightarrow> py_error + (string \<times> string)" where
  "parse_condition lower weather_json =
     (case weather_json ''weather'' of
        None \<Rightarrow> Inr ([], [])
      | Some (JList []) \<Rightarrow> Inr ([], [])
      | Some (JList (JObj d # rest)) \<Rightarrow>
          (case get_lower lower d ''main'' of
             Inl e \<Rightarrow> Inl e
           | Inr m \<Rightarrow>
               (case get_lower lower d ''description'' of
                  Inl e \<Rightarrow> Inl e
                | Inr ds \<Rightarrow> Inr (m, ds)))
      | Some (JList (other # rest)) \<Rightarrow> Inl AttributeError
      | Some (JStr s) \<Rightarrow> (if s = [] then Inr ([], []) else Inl AttributeError)
      | Some (JObj d) \<Rightarrow> (if d = Map.empty then Inr ([], []) else Inl KeyError)
      | Some other \<Rightarrow> Inl TypeError)"

text \<open>
  \<open>weather_json.get(sect, {}).get(key, dflt)\<close>, lines 111 and 112: a section that
  is present and is no dictionary has no \<open>get\<close>.
\<close>

definition get_nested :: "(string \<Rightarrow> json option) \<Rightarrow> string \<Rightarrow> string \<Rightarrow> json
    \<Rightarrow> py_error + json" where
  "get_nested weather_json sect key dflt =
     (case weather_json sect of
        None \<Rightarrow> Inr dflt
      | Some (JObj d) \<Rightarrow> Inr (case d key of None \<Rightarrow> dflt | Some v \<Rightarrow> v)
      | Some other \<Rightarrow> Inl AttributeError)"

text \<open>
  Lines 113 to 118: \<open>x = 0.0\<close>, then \<open>if sect in weather_json: x =
  weather_json[sect].get("1h", 0.0)\<close>.
\<close>

definition get_1h :: "(string \<Rightarrow> json option) \<Rightarrow> string \<Rightarrow> py_error + json" where
  "get_1h weather_json sect =
     (case weather_json sect of
        None \<Rightarrow> Inr (JFloat 0.0)
      | Some (JObj d) \<Rightarrow> Inr (case d ''1h'' of None \<Rightarrow> JFloat 0.0 | Some v \<Rightarrow> v)
      | Some other \<Rightarrow> Inl AttributeError)"

definition parse_fields :: "(string \<Rightarrow> string) \<Rightarrow> (string \<Rightarrow> json option)
    \<Rightarrow> py_error + raw_values" where
  "parse_fields lower weather_json =
     (case parse_condition lower weather_json of
        Inl e \<Rightarrow> Inl e
      | Inr (wmain, wdesc) \<Rightarrow>
     (case get_nested weather_json ''main'' ''temp'' JNull of
        Inl e \<Rightarrow> Inl e
      | Inr t \<Rightarrow>
     (case get_nested weather_json ''wind'' ''speed'' (JFloat 0.0) of
        Inl e \<Rightarrow> Inl e
      | Inr w \<Rightarrow>
     (case get_1h weather_json ''rain'' of
        Inl e \<Rightarrow> Inl e
      | Inr rn \<Rightarrow>
     (case get_1h weather_json ''snow'' of
        Inl e \<Rightarrow> Inl e
      | Inr sn \<Rightarrow>
          Inr \<lparr>temp_c = t, wind_speed = w, rain_1h = rn, snow_1h = sn,
               weather_main = wmain, weather_desc = wdesc\<rparr>)))))"

section \<open>analyze\_risk: flags, score, level\<close>

text \<open>
  Lines 121 to 124. \<open>or\<close> and \<open>and\<close> evaluate their right operand only when the left
  one does not decide, so a field that is no number raises only where it is compared.
\<close>

record flags =
  has_rain :: bool
  has_snow :: bool
  is_windy :: bool
  is_cold :: bool

definition rain_flag :: "raw_values \<Rightarrow> py_error + bool" where
  "rain_flag r =
     (if str_in ''rain'' (weather_main r) then Inr True
      else (case py_ge (rain_1h r) PRECIP_THRESHOLD_MM of
              Inl e \<Rightarrow> Inl e
            | Inr b \<Rightarrow> Inr (b \<or> str_in ''shower'' (weather_desc r))))"

definition snow_flag :: "raw_values \<Rightarrow> py_error + bool" where
  "snow_flag r =
     (if str_in ''snow'' (weather_main r) then Inr True
      else py_ge (snow_1h r) PRECIP_THRESHOLD_MM)"

definition wind_flag :: "raw_values \<Rightarrow> py_error + bool" where
  "wind_flag r = py_ge (wind_speed r) WIND_STRONG_THRESHOLD"

definition cold_flag :: "raw_values \<Rightarrow> py_error + bool" where
  "cold_flag r = (case temp_c r of JNull \<Rightarrow> Inr False | t \<Rightarrow> py_le t 0)"

definition basic_flags :: "raw_values \<Rightarrow> py_error + flags" where
  "basic_flags r =
     (case rain_flag r of Inl e \<Rightarrow> Inl e | Inr hr \<Rightarrow>
     (case snow_flag r of Inl e \<Rightarrow> Inl e | Inr hs \<Rightarrow>
     (case wind_flag r of Inl e \<Rightarrow> Inl e | Inr iw \<Rightarrow>
     (case cold_flag r of Inl e \<Rightarrow> Inl e | Inr ic \<Rightarrow>
        Inr \<lparr>has_rain = hr, has_snow = hs, is_windy = iw, is_cold = ic\<rparr>))))"

text \<open>The condition of line 146, for which the source names no variable.\<close>

definition is_stormy :: "raw_values \<Rightarrow> bool" where
  "is_stormy r = (str_in ''thunder'' (weather_desc r) \<or> str_in ''storm'' (weather_desc r))"

text \<open>The condition of line 149.\<close>

definition is_clear :: "raw_values \<Rightarrow> flags \<Rightarrow> bool" where
  "is_clear r f =
     (weather_main r = ''clear'' \<and> \<not> (has_rain f \<or> has_snow f \<or> is_windy f \<or> is_cold f))"

definition risk_weight :: "bool \<Rightarrow> real" where
  "risk_weight is_mountainous = (if is_mountainous then 2.0 else 1.0)"

text \<open>The degree sign and the dash of the source's texts, in UTF-8.\<close>

definition degree_sign :: string where
  "degree_sign = [CHR 0xC2, CHR 0xB0]"

definition em_dash :: string where
  "em_dash = [CHR 0xE2, CHR 0x80, CHR 0x94]"

definition rain_reason :: "raw_values \<Rightarrow> fstring" where
  "rain_reason r =
     [Lit ''Precipitation detected (rain ~ '', Val (rain_1h r), Lit '' mm in last hour).'']"

definition snow_reason :: "raw_values \<Rightarrow> fstring" where
  "snow_reason r =
     [Lit ''Snow detected (snow ~ '', Val (snow_1h r), Lit '' mm in last hour).'']"

definition wind_reason :: "raw_values \<Rightarrow> fstring" where
  "wind_reason r = [Lit ''Strong wind (~'', Val (wind_speed r), Lit '' m/s).'']"

definition cold_reason :: "raw_values \<Rightarrow> fstring" where
  "cold_reason r =
     [Lit ''Low temperature ('', Val (temp_c r), Lit ('' '' @ degree_sign @ ''C).'')]"

definition storm_reason :: "raw_values \<Rightarrow> fstring" where
  "storm_reason r =
     [Lit (''Thunderstorm / storm conditions reported: '' @ weather_desc r @ ''.'')]"

definition clear_reason :: fstring where
  "clear_reason = [Lit ''Clear conditions currently.'']"

definition not_mountainous_note :: fstring where
  "not_mountainous_note =
     [Lit (''Location is not identified as mountainous (lower elevation or user selected). ''
           @ ''Risk is assessed for non-mountain conditions.'')]"

text \<open>
  One \<open>if\<close> of lines 134 to 148, on the pair of \<open>reasons\<close> and \<open>risk_score\<close>:
  \<open>if fired: reasons.append(reason); risk_score += points\<close>.
\<close>

definition hazard :: "bool \<Rightarrow> fstring \<Rightarrow> real \<Rightarrow> fstring list \<times> real \<Rightarrow> fstring list \<times> real" where
  "hazard fired reason points st =
     (if fired then (fst st @ [reason], snd st + points) else st)"

text \<open>Lines 127 to 150: \<open>reasons\<close> and \<open>risk_score\<close> after the six \<open>if\<close>s, from \<open>[]\<close> and 0.\<close>

definition evaluate_risk :: "raw_values \<Rightarrow> flags \<Rightarrow> real \<Rightarrow> fstring list \<times> real" where
  "evaluate_risk r f w =
     (let st = ([], 0);
          st = hazard (has_rain f) (rain_reason r) (2 * w) st;
          st = hazard (has_snow f) (snow_reason r) (3 * w) st;
          st = hazard (is_windy f) (wind_reason r) (2 * w) st;
          st = hazard (is_cold f) (cold_reason r) (1.5 * w) st;
          st = hazard (is_stormy r) (storm_reason r) (3 * w) st
      in (if is_clear r f then (fst st @ [clear_reason], snd st) else st))"

definition risk_score :: "raw_values \<Rightarrow> flags \<Rightarrow> bool \<Rightarrow> real" where
  "risk_score r f is_mountainous = snd (evaluate_risk r f (risk_weight is_mountainous))"

definition advice_high :: "string list" where
  "advice_high =
     [''Avoid travel if possible '' @ em_dash @ '' high risk conditions for mountain areas.'',
      ''Postpone the trip or choose a lower-altitude route.'',
      ''If travel is necessary, carry warm waterproof gear, inform someone, ''
        @ ''and have emergency kit.'']"

definition advice_medium :: "string list" where
  "advice_medium =
     [''Caution advised. Conditions may be risky, especially on exposed or steep terrain.'',
      ''Check local forecasts and consider delaying if the weather worsens.'',
      ''Bring waterproof layers, navigation, and an emergency plan.'']"

definition advice_low :: "string list" where
  "advice_low =
     [''Conditions appear OK for trips, but weather can change rapidly in mountains.'',
      ''Bring layers, sun protection, and check updates before leaving.'']"

text \<open>Lines 153 to 172: the level and the advice of a score.\<close>

definition convert_score :: "real \<Rightarrow> string \<times> string list" where
  "convert_score s =
     (if s \<ge> 6 then (''High'', advice_high)
      else if s \<ge> 2.5 then (''Medium'', advice_medium)
      else (''Low'', advice_low))"

definition lowland_suffix :: string where
  "lowland_suffix = '' (mountain hazard less likely due to low elevation)''"

record risk_result =
  level :: string
  reasons :: "fstring list"
  advice :: "string list"
  raw :: raw_values

text \<open>Lines 120 to 193: the function from its parsed fields on.\<close>

definition assess_fields :: "raw_values \<Rightarrow> bool \<Rightarrow> py_error + risk_result" where
  "assess_fields r is_mountainous =
     (case basic_flags r of
        Inl e \<Rightarrow> Inl e
      | Inr f \<Rightarrow>
          (let (rs, s) = evaluate_risk r f (risk_weight is_mountainous);
               (lv, adv) = convert_score s;
               rs = (if \<not> is_mountainous then not_mountainous_note # rs else rs);
               lv = (if \<not> is_mountainous \<and> lv = ''High'' then lv @ lowland_suffix else lv)
           in Inr \<lparr>level = lv, reasons = rs, advice = adv, raw = r\<rparr>))"

definition analyze_risk :: "(string \<Rightarrow> string) \<Rightarrow> (string \<Rightarrow> json option) \<Rightarrow> bool
    \<Rightarrow> py_error + risk_result" where
  "analyze_risk lower weather_json is_mountainous =
     (case parse_fields lower weather_json of
        Inl e \<Rightarrow> Inl e
      | Inr r \<Rightarrow> assess_fields r is_mountainous)"

section \<open>The handler of the button\<close>

text \<open>
  Lines 283 to 296, the mode of latitude and longitude. \<open>elev\<close> is what
  \<open>fetch_elevation\<close> returned (\<open>JNull\<close> for \<open>None\<close>); it is asked for only under
  \<open>auto_elev\<close>. The result is the pair of \<open>elevation\<close> and \<open>is_mountainous\<close>.
\<close>

definition coords_mountainous :: "bool \<Rightarrow> json \<Rightarrow> bool \<Rightarrow> py_error + (json \<times> bool)" where
  "coords_mountainous auto_elev elev force_mountain =
     (case (if auto_elev then
              (case elev of
                 JNull \<Rightarrow> Inr (JNull, False)
               | v \<Rightarrow> (case py_ge v ELEVATION_MOUNTAIN_THRESHOLD of
                        Inl e \<Rightarrow> Inl e
                      | Inr b \<Rightarrow> Inr (v, b)))
            else Inr (JNull, False)) of
        Inl e \<Rightarrow> Inl e
      | Inr (elevation, is_mountainous) \<Rightarrow>
          Inr (elevation, if force_mountain then True else is_mountainous))"

text \<open>Lines 264 and 265, the mode of the city name.\<close>

definition city_mountainous :: "bool \<Rightarrow> json \<times> bool" where
  "city_mountainous force_mountain = (JNull, force_mountain \<or> False)"

text \<open>Lines 246 to 252, the payload of the demo.\<close>

definition demo_weather :: "string \<Rightarrow> json option" where
  "demo_weather =
     [''weather'' \<mapsto> JList [JObj [''main'' \<mapsto> JStr ''Clear'',
                                     ''description'' \<mapsto> JStr ''clear sky'']],
      ''main'' \<mapsto> JObj [''temp'' \<mapsto> JFloat 4.5],
      ''wind'' \<mapsto> JObj [''speed'' \<mapsto> JFloat 3.2],
      ''rain'' \<mapsto> JObj Map.empty,
      ''snow'' \<mapsto> JObj Map.empty]"

text \<open>
  A function to stand for \<open>str.lower\<close> where a payload is evaluated: it maps the letters
  A to Z to a to z, as \<open>str.lower\<close> does on an ASCII string.
\<close>

definition ascii_lower :: "string \<Rightarrow> string" where
  "ascii_lower s =
     map (\<lambda>c. case map_of (zip ''ABCDEFGHIJKLMNOPQRSTUVWXYZ'' ''abcdefghijklmnopqrstuvwxyz'') c of
                 None \<Rightarrow> c
               | Some l \<Rightarrow> l) s"

section \<open>The declared input domain\<close>

text \<open>
  The fields as the weather service sends them: wind, rain and snow are numbers, the
  temperature is a number or is missing (\<open>None\<close>).
\<close>

definition is_number :: "json \<Rightarrow> bool" where
  "is_number v = (num_of v \<noteq> None)"

definition observation :: "raw_values \<Rightarrow> bool" where
  "observation r =
     (is_number (wind_speed r) \<and> is_number (rain_1h r) \<and> is_number (snow_1h r)
      \<and> (temp_c r = JNull \<or> is_number (temp_c r)))"

text \<open>
  The payloads that parse to such fields: a section may be absent, a key of a section may
  be absent, and what is present has the type the weather service documents.
\<close>

definition section_ok :: "(string \<Rightarrow> json option) \<Rightarrow> string \<Rightarrow> string \<Rightarrow> (json \<Rightarrow> bool) \<Rightarrow> bool" where
  "section_ok weather_json sect key ok =
     (case weather_json sect of
        None \<Rightarrow> True
      | Some (JObj d) \<Rightarrow> (case d key of None \<Rightarrow> True | Some v \<Rightarrow> ok v)
      | Some other \<Rightarrow> False)"

definition is_text :: "json \<Rightarrow> bool" where
  "is_text v = (case v of JStr s \<Rightarrow> True | other \<Rightarrow> False)"

definition condition_ok :: "(string \<Rightarrow> json option) \<Rightarrow> bool" where
  "condition_ok weather_json =
     (case weather_json ''weather'' of
        None \<Rightarrow> True
      | Some (JList []) \<Rightarrow> True
      | Some (JList (JObj d # rest)) \<Rightarrow>
          (case d ''main'' of None \<Rightarrow> True | Some v \<Rightarrow> is_text v)
          \<and> (case d ''description'' of None \<Rightarrow> True | Some v \<Rightarrow> is_text v)
      | Some other \<Rightarrow> False)"

definition payload_ok :: "(string \<Rightarrow> json option) \<Rightarrow> bool" where
  "payload_ok weather_json =
     (condition_ok weather_json
      \<and> section_ok weather_json ''main'' ''temp'' (\<lambda>v. v = JNull \<or> is_number v)
      \<and> section_ok weather_json ''wind'' ''speed'' is_number
      \<and> section_ok weather_json ''rain'' ''1h'' is_number
      \<and> section_ok weather_json ''snow'' ''1h'' is_number)"

section \<open>Properties of the building blocks\<close>

text \<open>\<open>str_in\<close> is the substring test.\<close>

lemma str_in_here: "str_in sub (sub @ q)"
proof (cases "sub @ q")
  case Nil
  then show ?thesis by simp
next
  case (Cons a list)
  have "take (length sub) (sub @ q) = sub" by simp
  then have "take (length sub) (a # list) = sub" using Cons by simp
  then show ?thesis using Cons by simp
qed

lemma str_in_append: "str_in sub (p @ sub @ q)"
proof (induction p)
  case Nil
  show ?case using str_in_here by simp
next
  case (Cons c p)
  then show ?case by simp
qed

lemma str_in_iff: "str_in sub s \<longleftrightarrow> (\<exists>p q. s = p @ sub @ q)"
proof
  show "str_in sub s \<Longrightarrow> \<exists>p q. s = p @ sub @ q"
  proof (induction s)
    case Nil
    then show ?case by simp
  next
    case (Cons c cs)
    show ?case
    proof (cases "take (length sub) (c # cs) = sub")
      case True
      then have "c # cs = [] @ sub @ drop (length sub) (c # cs)"
        by (metis append_Nil append_take_drop_id)
      then show ?thesis by blast
    next
      case False
      with Cons.prems have "str_in sub cs" by simp
      then obtain p q where "cs = p @ sub @ q" using Cons.IH by blast
      then have "c # cs = (c # p) @ sub @ q" by simp
      then show ?thesis by blast
    qed
  qed
next
  assume "\<exists>p q. s = p @ sub @ q"
  then show "str_in sub s" using str_in_append by blast
qed

text \<open>The flags on fields that are numbers.\<close>

lemma rain_flag_num:
  "num_of (rain_1h r) = Some x \<Longrightarrow>
   rain_flag r = Inr (str_in ''rain'' (weather_main r) \<or> 0.1 \<le> x \<or> str_in ''shower'' (weather_desc r))"
  by (simp add: rain_flag_def py_ge_def PRECIP_THRESHOLD_MM_def)

lemma snow_flag_num:
  "num_of (snow_1h r) = Some x \<Longrightarrow>
   snow_flag r = Inr (str_in ''snow'' (weather_main r) \<or> 0.1 \<le> x)"
  by (simp add: snow_flag_def py_ge_def PRECIP_THRESHOLD_MM_def)

lemma wind_flag_num:
  "num_of (wind_speed r) = Some x \<Longrightarrow> wind_flag r = Inr (10 \<le> x)"
  by (simp add: wind_flag_def py_ge_def WIND_STRONG_THRESHOLD_def)

lemma cold_flag_none: "temp_c r = JNull \<Longrightarrow> cold_flag r = Inr False"
  by (simp add: cold_flag_def)

lemma cold_flag_num: "num_of (temp_c r) = Some t \<Longrightarrow> cold_flag r = Inr (t \<le> 0)"
  by (cases "temp_c r") (simp_all add: cold_flag_def py_le_def)

lemma cold_flag_observation:
  assumes "temp_c r = JNull \<or> is_number (temp_c r)"
  shows "cold_flag r = Inr (\<exists>t. num_of (temp_c r) = Some t \<and> t \<le> 0)"
proof (cases "num_of (temp_c r)")
  case None
  with assms have "temp_c r = JNull" by (simp add: is_number_def)
  with None show ?thesis by (simp add: cold_flag_none)
next
  case (Some t)
  then show ?thesis by (simp add: cold_flag_num)
qed

lemma basic_flags_observation:
  assumes "observation r"
  shows "basic_flags r =
     Inr \<lparr>has_rain = (str_in ''rain'' (weather_main r)
                        \<or> (\<exists>x. num_of (rain_1h r) = Some x \<and> 0.1 \<le> x)
                        \<or> str_in ''shower'' (weather_desc r)),
          has_snow = (str_in ''snow'' (weather_main r)
                        \<or> (\<exists>x. num_of (snow_1h r) = Some x \<and> 0.1 \<le> x)),
          is_windy = (\<exists>x. num_of (wind_speed r) = Some x \<and> 10 \<le> x),
          is_cold = (\<exists>t. num_of (temp_c r) = Some t \<and> t \<le> 0)\<rparr>"
proof -
  from assms obtain w rn sn where n: "num_of (wind_speed r) = Some w"
      "num_of (rain_1h r) = Some rn" "num_of (snow_1h r) = Some sn"
    by (auto simp: observation_def is_number_def)
  from assms have c: "cold_flag r = Inr (\<exists>t. num_of (temp_c r) = Some t \<and> t \<le> 0)"
    by (simp add: observation_def cold_flag_observation)
  show ?thesis
    by (simp add: basic_flags_def rain_flag_num [OF n(2)] snow_flag_num [OF n(3)]
        wind_flag_num [OF n(1)] c n)
qed

lemma hazard_snd: "snd (hazard b q p st) = snd st + (if b then p else 0)"
  by (simp add: hazard_def)

lemma hazard_fst: "fst (hazard b q p st) = fst st @ (if b then [q] else [])"
  by (simp add: hazard_def)

lemma clear_snd: "snd (if c then (xs, y) else st) = (if c then y else snd st)"
  by simp

lemma clear_fst: "fst (if c then (xs, y) else st) = (if c then xs else fst st)"
  by simp

lemma evaluate_risk_score:
  "snd (evaluate_risk r f w) =
     (if has_rain f then 2 * w else 0) + (if has_snow f then 3 * w else 0)
     + (if is_windy f then 2 * w else 0) + (if is_cold f then 1.5 * w else 0)
     + (if is_stormy r then 3 * w else 0)"
  by (simp add: evaluate_risk_def Let_def clear_snd hazard_snd)

lemma evaluate_risk_reasons:
  "fst (evaluate_risk r f w) =
     (if has_rain f then [rain_reason r] else [])
     @ (if has_snow f then [snow_reason r] else [])
     @ (if is_windy f then [wind_reason r] else [])
     @ (if is_cold f then [cold_reason r] else [])
     @ (if is_stormy r then [storm_reason r] else [])
     @ (if is_clear r f then [clear_reason] else [])"
  by (simp add: evaluate_risk_def Let_def clear_fst hazard_fst)

lemma assess_fields_result:
  assumes "basic_flags r = Inr f"
  shows "assess_fields r m =
     Inr \<lparr>level = (if \<not> m \<and> fst (convert_score (risk_score r f m)) = ''High''
                     then fst (convert_score (risk_score r f m)) @ lowland_suffix
                     else fst (convert_score (risk_score r f m))),
          reasons = (if m then [] else [not_mountainous_note])
                      @ fst (evaluate_risk r f (risk_weight m)),
          advice = snd (convert_score (risk_score r f m)),
          raw = r\<rparr>"
  using assms by (simp add: assess_fields_def risk_score_def split_beta Let_def)

text \<open>The level and the advice of a score; an observation has flags.\<close>

lemma convert_score_level:
  "fst (convert_score s) = (if 6 \<le> s then ''High'' else if 2.5 \<le> s then ''Medium'' else ''Low'')"
  by (simp add: convert_score_def)

lemma convert_score_advice:
  "snd (convert_score s) =
     (if 6 \<le> s then advice_high else if 2.5 \<le> s then advice_medium else advice_low)"
  by (simp add: convert_score_def)

lemma observation_flags: "observation r \<Longrightarrow> \<exists>f. basic_flags r = Inr f"
  by (simp add: basic_flags_observation)

text \<open>The reasons of a result, in the order they were added.\<close>

lemma clear_reason_distinct:
  "clear_reason \<noteq> not_mountainous_note" "clear_reason \<noteq> rain_reason r"
  "clear_reason \<noteq> snow_reason r" "clear_reason \<noteq> wind_reason r"
  "clear_reason \<noteq> cold_reason r" "clear_reason \<noteq> storm_reason r"
  by (simp_all add: clear_reason_def not_mountainous_note_def rain_reason_def snow_reason_def
      wind_reason_def cold_reason_def storm_reason_def)

lemma assess_fields_reasons:
  assumes "basic_flags r = Inr f"
  shows "\<exists>res. assess_fields r m = Inr res
     \<and> reasons res =
         (if m then [] else [not_mountainous_note])
         @ (if has_rain f then [rain_reason r] else [])
         @ (if has_snow f then [snow_reason r] else [])
         @ (if is_windy f then [wind_reason r] else [])
         @ (if is_cold f then [cold_reason r] else [])
         @ (if is_stormy r then [storm_reason r] else [])
         @ (if is_clear r f then [clear_reason] else [])"
  by (simp add: assess_fields_result [OF assms] evaluate_risk_reasons)

text \<open>The result keeps the parsed fields; the flags of a result; an empty payload.\<close>

lemma assess_fields_raw:
  assumes "assess_fields r m = Inr res"
  shows "raw res = r"
proof (cases "basic_flags r")
  case (Inl e)
  with assms show ?thesis by (simp add: assess_fields_def)
next
  case (Inr f)
  from assms show ?thesis by (auto simp: assess_fields_result [OF Inr])
qed

lemma basic_flags_InrD:
  assumes "basic_flags r = Inr f"
  shows "rain_flag r = Inr (has_rain f)" "snow_flag r = Inr (has_snow f)"
    "wind_flag r = Inr (is_windy f)" "cold_flag r = Inr (is_cold f)"
  using assms by (auto simp: basic_flags_def split: sum.splits)

lemma assess_fields_observation:
  assumes "observation r"
  shows "\<exists>res. assess_fields r m = Inr res \<and> raw res = r"
proof -
  from assms obtain f where f: "basic_flags r = Inr f"
    using observation_flags by blast
  show ?thesis by (simp add: assess_fields_result [OF f])
qed

lemma parse_fields_absent:
  "parse_fields lower Map.empty =
     Inr \<lparr>temp_c = JNull, wind_speed = JFloat 0, rain_1h = JFloat 0, snow_1h = JFloat 0,
          weather_main = [], weather_desc = []\<rparr>"
  by (simp add: parse_fields_def parse_condition_def get_nested_def get_1h_def)

text \<open>A section without the key \<open>1h\<close> parses as the payload without the section.\<close>

lemma get_1h_empty:
  assumes "weather_json sect = Some (JObj d)" and "d ''1h'' = None"
  shows "get_1h weather_json sect = Inr (JFloat 0.0)"
    and "get_1h (weather_json(sect := None)) sect = Inr (JFloat 0.0)"
  using assms by (simp_all add: get_1h_def)

lemma parse_fields_rain:
  "parse_fields lower weather_json = Inr r \<Longrightarrow> get_1h weather_json ''rain'' = Inr (rain_1h r)"
  by (auto simp: parse_fields_def split: sum.splits prod.splits)

lemma parse_fields_snow:
  "parse_fields lower weather_json = Inr r \<Longrightarrow> get_1h weather_json ''snow'' = Inr (snow_1h r)"
  by (auto simp: parse_fields_def split: sum.splits prod.splits)

lemma parse_fields_drop_empty:
  assumes "sect = ''rain'' \<or> sect = ''snow''"
    and "weather_json sect = Some (JObj d)" and "d ''1h'' = None"
  shows "parse_fields lower (weather_json(sect := None)) = parse_fields lower weather_json"
proof -
  have c: "parse_condition lower (weather_json(sect := None)) = parse_condition lower weather_json"
    using assms(1) by (auto simp: parse_condition_def)
  have n: "get_nested (weather_json(sect := None)) ''main'' ''temp'' JNull
            = get_nested weather_json ''main'' ''temp'' JNull"
      "get_nested (weather_json(sect := None)) ''wind'' ''speed'' (JFloat 0.0)
            = get_nested weather_json ''wind'' ''speed'' (JFloat 0.0)"
    using assms(1) by (auto simp: get_nested_def)
  have h: "get_1h (weather_json(sect := None)) ''rain'' = get_1h weather_json ''rain''"
      "get_1h (weather_json(sect := None)) ''snow'' = get_1h weather_json ''snow''"
    using assms by (auto simp: get_1h_def)
  show ?thesis
    unfolding parse_fields_def c n h by (rule refl)
qed

text \<open>
  Outside the declared domain the program raises: a wind speed that is \<open>null\<close> is
  compared with a number, and an elevation that is a text is compared before the override
  is looked at.
\<close>

lemma analyze_risk_null_speed:
  "analyze_risk lower [''wind'' \<mapsto> JObj [''speed'' \<mapsto> JNull]] m = Inl TypeError"
  by (simp add: analyze_risk_def parse_fields_def parse_condition_def get_nested_def
      get_1h_def assess_fields_def basic_flags_def rain_flag_def snow_flag_def wind_flag_def
      py_ge_def PRECIP_THRESHOLD_MM_def)

lemma coords_mountainous_text_elevation:
  "coords_mountainous True (JStr ''high'') True = Inl TypeError"
  by (simp add: coords_mountainous_def py_ge_def)

text \<open>On a payload of the declared shape the whole function returns.\<close>

lemma get_lower_text:
  assumes "case d key of None \<Rightarrow> True | Some v \<Rightarrow> is_text v"
  shows "\<exists>s. get_lower lower d key = Inr s"
  using assms by (auto simp: get_lower_def is_text_def split: option.splits json.splits)

lemma parse_condition_ok:
  assumes "condition_ok weather_json"
  shows "\<exists>c. parse_condition lower weather_json = Inr c"
proof (cases "weather_json ''weather''")
  case None
  then show ?thesis by (simp add: parse_condition_def)
next
  case (Some v)
  show ?thesis
  proof (cases v)
    case (JList xs)
    show ?thesis
    proof (cases xs)
      case Nil
      with Some JList show ?thesis by (simp add: parse_condition_def)
    next
      case (Cons x rest)
      with assms Some JList obtain d where d: "x = JObj d"
        by (cases x) (simp_all add: condition_ok_def)
      from assms Some JList Cons d
      have "case d ''main'' of None \<Rightarrow> True | Some v \<Rightarrow> is_text v"
        and "case d ''description'' of None \<Rightarrow> True | Some v \<Rightarrow> is_text v"
        by (simp_all add: condition_ok_def)
      then obtain a b where "get_lower lower d ''main'' = Inr a"
        "get_lower lower d ''description'' = Inr b"
        using get_lower_text by blast
      with Some JList Cons d show ?thesis by (simp add: parse_condition_def)
    qed
  qed (use assms Some in \<open>simp_all add: condition_ok_def\<close>)
qed

lemma get_nested_ok:
  assumes "section_ok weather_json sect key ok" and "ok dflt"
  shows "\<exists>v. get_nested weather_json sect key dflt = Inr v \<and> ok v"
  using assms
  by (auto simp: section_ok_def get_nested_def split: option.splits json.splits)

lemma get_1h_ok:
  assumes "section_ok weather_json sect ''1h'' is_number"
  shows "\<exists>v. get_1h weather_json sect = Inr v \<and> is_number v"
  using assms
  by (auto simp: section_ok_def get_1h_def is_number_def split: option.splits json.splits)

lemma parse_fields_payload_ok:
  assumes "payload_ok weather_json"
  shows "\<exists>r. parse_fields lower weather_json = Inr r \<and> observation r"
proof -
  from assms have "condition_ok weather_json" by (simp add: payload_ok_def)
  then obtain c where c: "parse_condition lower weather_json = Inr c"
    using parse_condition_ok by blast
  from assms obtain t where t: "get_nested weather_json ''main'' ''temp'' JNull = Inr t"
      "t = JNull \<or> is_number t"
    using get_nested_ok [of weather_json "''main''" "''temp''" "\<lambda>v. v = JNull \<or> is_number v" JNull]
    by (auto simp: payload_ok_def)
  from assms obtain w where w: "get_nested weather_json ''wind'' ''speed'' (JFloat 0.0) = Inr w"
      "is_number w"
    using get_nested_ok [of weather_json "''wind''" "''speed''" is_number "JFloat 0.0"]
    by (auto simp: payload_ok_def is_number_def)
  from assms obtain rn where rn: "get_1h weather_json ''rain'' = Inr rn" "is_number rn"
    using get_1h_ok [of weather_json "''rain''"] by (auto simp: payload_ok_def)
  from assms obtain sn where sn: "get_1h weather_json ''snow'' = Inr sn" "is_number sn"
    using get_1h_ok [of weather_json "''snow''"] by (auto simp: payload_ok_def)
  show ?thesis
    using c t w rn sn
    by (cases c) (auto simp: parse_fields_def observation_def)
qed

lemma analyze_risk_payload_ok:
  assumes "payload_ok weather_json"
  shows "\<exists>res. analyze_risk lower weather_json m = Inr res"
proof -
  from parse_fields_payload_ok [OF assms, of lower] obtain r where
    r: "parse_fields lower weather_json = Inr r" "observation r" by blast
  from assess_fields_observation [OF r(2), of m] r(1) show ?thesis
    by (auto simp: analyze_risk_def)
qed

lemma is_number_simps:
  "is_number (JFloat x)" "is_number (JInt i)" "is_number (JBool b)" "\<not> is_number JNull"
  "\<not> is_number (JStr s)" "\<not> is_number (JList xs)" "\<not> is_number (JObj d)"
  by (simp_all add: is_number_def)

lemma demo_payload_ok: "payload_ok demo_weather"
  by (simp add: payload_ok_def condition_ok_def section_ok_def demo_weather_def is_text_def
      is_number_simps)

section \<open>The claims\<close>

text \<open>
  C1. On every observation and for either value of the mountainous flag, the flags are the
  specified conditions: rain when the main condition contains "rain", or the rain of the
  last hour is at least 0.1, or the description contains "shower"; snow when the main
  condition contains "snow" or the snow of the last hour is at least 0.1; wind when the
  wind speed is at least 10.0; cold when a temperature is present and at most 0; storm when
  the description contains "thunder" or "storm". The score is the sum, over the flags that
  fired, of 2, 3, 2, 1.5 and 3 times the weight, which is 2.0 when mountainous and 1.0
  otherwise.
\<close>

theorem flags_and_score:
  assumes "observation r"
  shows "\<exists>f. basic_flags r = Inr f
    \<and> has_rain f = (str_in ''rain'' (weather_main r)
                    \<or> (\<exists>x. num_of (rain_1h r) = Some x \<and> 0.1 \<le> x)
                    \<or> str_in ''shower'' (weather_desc r))
    \<and> has_snow f = (str_in ''snow'' (weather_main r)
                    \<or> (\<exists>x. num_of (snow_1h r) = Some x \<and> 0.1 \<le> x))
    \<and> is_windy f = (\<exists>x. num_of (wind_speed r) = Some x \<and> 10.0 \<le> x)
    \<and> is_cold f = (\<exists>t. num_of (temp_c r) = Some t \<and> t \<le> 0)
    \<and> is_stormy r = (str_in ''thunder'' (weather_desc r) \<or> str_in ''storm'' (weather_desc r))
    \<and> risk_weight m = (if m then 2.0 else 1.0)
    \<and> risk_score r f m =
          (if has_rain f then 2 * risk_weight m else 0)
        + (if has_snow f then 3 * risk_weight m else 0)
        + (if is_windy f then 2 * risk_weight m else 0)
        + (if is_cold f then 1.5 * risk_weight m else 0)
        + (if is_stormy r then 3 * risk_weight m else 0)"
proof -
  let ?f = "\<lparr>has_rain = (str_in ''rain'' (weather_main r)
                        \<or> (\<exists>x. num_of (rain_1h r) = Some x \<and> 0.1 \<le> x)
                        \<or> str_in ''shower'' (weather_desc r)),
          has_snow = (str_in ''snow'' (weather_main r)
                        \<or> (\<exists>x. num_of (snow_1h r) = Some x \<and> 0.1 \<le> x)),
          is_windy = (\<exists>x. num_of (wind_speed r) = Some x \<and> 10 \<le> x),
          is_cold = (\<exists>t. num_of (temp_c r) = Some t \<and> t \<le> 0)\<rparr>"
  have f: "basic_flags r = Inr ?f"
    using assms by (rule basic_flags_observation)
  have s: "risk_score r ?f m =
          (if has_rain ?f then 2 * risk_weight m else 0)
        + (if has_snow ?f then 3 * risk_weight m else 0)
        + (if is_windy ?f then 2 * risk_weight m else 0)
        + (if is_cold ?f then 1.5 * risk_weight m else 0)
        + (if is_stormy r then 3 * risk_weight m else 0)"
    unfolding risk_score_def by (rule evaluate_risk_score)
  have w: "risk_weight m = (if m then 2.0 else 1.0)"
    by (simp add: risk_weight_def)
  have st: "is_stormy r = (str_in ''thunder'' (weather_desc r) \<or> str_in ''storm'' (weather_desc r))"
    by (simp add: is_stormy_def)
  show ?thesis
    apply (rule exI [of _ ?f])
    apply (intro conjI)
           apply (rule f)
          apply simp
         apply simp
        apply simp
       apply simp
      apply (rule st)
     apply (rule w)
    apply (rule s)
    done
qed

theorem flags_and_score_witness:
  "observation \<lparr>temp_c = JFloat (- 2), wind_speed = JInt 12, rain_1h = JFloat 0.5,
                 snow_1h = JFloat 0, weather_main = ''rain'',
                 weather_desc = ''thunderstorm with rain''\<rparr>
   \<and> (\<exists>f. basic_flags \<lparr>temp_c = JFloat (- 2), wind_speed = JInt 12, rain_1h = JFloat 0.5,
                 snow_1h = JFloat 0, weather_main = ''rain'',
                 weather_desc = ''thunderstorm with rain''\<rparr> = Inr f
          \<and> has_rain f \<and> \<not> has_snow f \<and> is_windy f \<and> is_cold f
          \<and> risk_score \<lparr>temp_c = JFloat (- 2), wind_speed = JInt 12, rain_1h = JFloat 0.5,
                 snow_1h = JFloat 0, weather_main = ''rain'',
                 weather_desc = ''thunderstorm with rain''\<rparr> f True = 17)"
proof -
  let ?r = "\<lparr>temp_c = JFloat (- 2), wind_speed = JInt 12, rain_1h = JFloat 0.5,
                 snow_1h = JFloat 0, weather_main = ''rain'',
                 weather_desc = ''thunderstorm with rain''\<rparr>"
  have obs: "observation ?r"
    by (simp add: observation_def is_number_def)
  from flags_and_score [OF obs, of True] obtain f where
    f: "basic_flags ?r = Inr f" and
    a: "has_rain f" "\<not> has_snow f" "is_windy f" "is_cold f" "is_stormy ?r" and
    s: "risk_score ?r f True =
          (if has_rain f then 2 * risk_weight True else 0)
        + (if has_snow f then 3 * risk_weight True else 0)
        + (if is_windy f then 2 * risk_weight True else 0)
        + (if is_cold f then 1.5 * risk_weight True else 0)
        + (if is_stormy ?r then 3 * risk_weight True else 0)" and
    w: "risk_weight True = 2"
    by auto
  from s a w have "risk_score ?r f True = 17" by simp
  with obs f a show ?thesis by blast
qed

text \<open>
  C2. On every observation, the level before the lowland suffix is "High" when the score
  is at least 6, otherwise "Medium" when it is at least 2.5, otherwise "Low". The advice
  returned is the fixed list of that level: three strings for High, three for Medium and
  two for Low.
\<close>

theorem level_and_advice:
  assumes "observation r"
  shows "\<exists>f res. basic_flags r = Inr f \<and> assess_fields r m = Inr res
    \<and> fst (convert_score (risk_score r f m)) =
          (if 6 \<le> risk_score r f m then ''High''
           else if 2.5 \<le> risk_score r f m then ''Medium'' else ''Low'')
    \<and> level res = fst (convert_score (risk_score r f m))
                     @ (if \<not> m \<and> 6 \<le> risk_score r f m then lowland_suffix else [])
    \<and> advice res =
          (if 6 \<le> risk_score r f m then advice_high
           else if 2.5 \<le> risk_score r f m then advice_medium else advice_low)
    \<and> length advice_high = 3 \<and> length advice_medium = 3 \<and> length advice_low = 2"
proof -
  from assms obtain f where f: "basic_flags r = Inr f"
    using observation_flags by blast
  let ?s = "risk_score r f m"
  let ?res = "\<lparr>level = (if \<not> m \<and> fst (convert_score ?s) = ''High''
                     then fst (convert_score ?s) @ lowland_suffix
                     else fst (convert_score ?s)),
          reasons = (if m then [] else [not_mountainous_note])
                      @ fst (evaluate_risk r f (risk_weight m)),
          advice = snd (convert_score ?s),
          raw = r\<rparr>"
  have res: "assess_fields r m = Inr ?res"
    using f by (rule assess_fields_result)
  have lv: "level ?res = fst (convert_score ?s)
                     @ (if \<not> m \<and> 6 \<le> ?s then lowland_suffix else [])"
    by (cases m) (auto simp: convert_score_level)
  have adv: "advice ?res =
          (if 6 \<le> ?s then advice_high else if 2.5 \<le> ?s then advice_medium else advice_low)"
    by (simp add: convert_score_advice)
  have len: "length advice_high = 3 \<and> length advice_medium = 3 \<and> length advice_low = 2"
    by (simp add: advice_high_def advice_medium_def advice_low_def)
  from f res lv adv len convert_score_level [of ?s] show ?thesis by blast
qed

theorem level_and_advice_witness:
  "observation \<lparr>temp_c = JNull, wind_speed = JFloat 0, rain_1h = JFloat 0,
                 snow_1h = JFloat 0, weather_main = ''thunderstorm'',
                 weather_desc = ''thunderstorm''\<rparr>
   \<and> (\<exists>res. assess_fields \<lparr>temp_c = JNull, wind_speed = JFloat 0, rain_1h = JFloat 0,
                 snow_1h = JFloat 0, weather_main = ''thunderstorm'',
                 weather_desc = ''thunderstorm''\<rparr> False = Inr res
          \<and> level res = ''Medium'' \<and> advice res = advice_medium)"
proof -
  let ?r = "\<lparr>temp_c = JNull, wind_speed = JFloat 0, rain_1h = JFloat 0,
                 snow_1h = JFloat 0, weather_main = ''thunderstorm'',
                 weather_desc = ''thunderstorm''\<rparr>"
  have obs: "observation ?r"
    by (simp add: observation_def is_number_def)
  have fl: "basic_flags ?r = Inr \<lparr>has_rain = False, has_snow = False, is_windy = False, is_cold = False\<rparr>"
    by (simp add: basic_flags_def rain_flag_def snow_flag_def wind_flag_def cold_flag_def
        py_ge_def PRECIP_THRESHOLD_MM_def WIND_STRONG_THRESHOLD_def)
  have st: "is_stormy ?r" by (simp add: is_stormy_def)
  have sc: "risk_score ?r \<lparr>has_rain = False, has_snow = False, is_windy = False, is_cold = False\<rparr> False = 3"
    by (simp add: risk_score_def evaluate_risk_score st risk_weight_def)
  from level_and_advice [OF obs, of False] fl sc obs show ?thesis
    by auto
qed

text \<open>
  C3. The classification of the location, from the fetched elevation (a number, or missing)
  and the override: with the override the result is true whatever the elevation is;
  without it the result is true exactly when an elevation is present and is at least 1000,
  so 999 gives false, 1000 gives true and a missing elevation gives false. The mode of the
  city name has no elevation and returns the override.
\<close>

theorem mountainous_table:
  assumes "elev = JNull \<or> is_number elev"
  shows "\<exists>elevation. coords_mountainous auto_elev elev force_mountain =
            Inr (elevation, force_mountain \<or> (\<exists>x. num_of elevation = Some x \<and> 1000 \<le> x))
          \<and> elevation = (if auto_elev then elev else JNull)
          \<and> coords_mountainous auto_elev elev True = Inr (elevation, True)
          \<and> coords_mountainous True (JInt 999) False = Inr (JInt 999, False)
          \<and> coords_mountainous True (JInt 1000) False = Inr (JInt 1000, True)
          \<and> coords_mountainous auto_elev JNull False = Inr (JNull, False)
          \<and> city_mountainous force_mountain = (JNull, force_mountain)"
proof (cases "num_of elev")
  case None
  with assms have "elev = JNull" by (simp add: is_number_def)
  then show ?thesis
    by (simp add: coords_mountainous_def city_mountainous_def py_ge_def
        ELEVATION_MOUNTAIN_THRESHOLD_def)
next
  case (Some x)
  then have "elev \<noteq> JNull" by auto
  with Some show ?thesis
    by (cases elev)
      (simp_all add: coords_mountainous_def city_mountainous_def py_ge_def
        ELEVATION_MOUNTAIN_THRESHOLD_def)
qed

theorem mountainous_table_witness:
  "(JInt 3200 = JNull \<or> is_number (JInt 3200))
   \<and> coords_mountainous True (JInt 3200) False = Inr (JInt 3200, True)
   \<and> coords_mountainous False (JInt 3200) False = Inr (JNull, False)
   \<and> coords_mountainous False (JInt 3200) True = Inr (JNull, True)"
proof -
  have h: "JInt 3200 = JNull \<or> is_number (JInt 3200)"
    by (simp add: is_number_def)
  from mountainous_table [OF h, of True False] mountainous_table [OF h, of False False]
    mountainous_table [OF h, of False True] h
  show ?thesis by auto
qed

text \<open>
  C4 as stated, that the list of reasons is never empty, fails: on an overcast day in the
  mountains no flag fires, the main condition is not "clear", and no reason is added.
\<close>

theorem reasons_empty_counterexample:
  "observation \<lparr>temp_c = JFloat 12, wind_speed = JFloat 3, rain_1h = JFloat 0,
                 snow_1h = JFloat 0, weather_main = ''clouds'',
                 weather_desc = ''overcast clouds''\<rparr>
   \<and> assess_fields \<lparr>temp_c = JFloat 12, wind_speed = JFloat 3, rain_1h = JFloat 0,
                 snow_1h = JFloat 0, weather_main = ''clouds'',
                 weather_desc = ''overcast clouds''\<rparr> True
       = Inr \<lparr>level = ''Low'', reasons = [], advice = advice_low,
              raw = \<lparr>temp_c = JFloat 12, wind_speed = JFloat 3, rain_1h = JFloat 0,
                 snow_1h = JFloat 0, weather_main = ''clouds'',
                 weather_desc = ''overcast clouds''\<rparr>\<rparr>
   \<and> analyze_risk ascii_lower
         [''weather'' \<mapsto> JList [JObj [''main'' \<mapsto> JStr ''Clouds'',
                                         ''description'' \<mapsto> JStr ''overcast clouds'']],
          ''main'' \<mapsto> JObj [''temp'' \<mapsto> JFloat 12],
          ''wind'' \<mapsto> JObj [''speed'' \<mapsto> JFloat 3]] True
       = Inr \<lparr>level = ''Low'', reasons = [], advice = advice_low,
              raw = \<lparr>temp_c = JFloat 12, wind_speed = JFloat 3, rain_1h = JFloat 0,
                 snow_1h = JFloat 0, weather_main = ''clouds'',
                 weather_desc = ''overcast clouds''\<rparr>\<rparr>"
proof -
  let ?r = "\<lparr>temp_c = JFloat 12, wind_speed = JFloat 3, rain_1h = JFloat 0,
                 snow_1h = JFloat 0, weather_main = ''clouds'',
                 weather_desc = ''overcast clouds''\<rparr>"
  have obs: "observation ?r"
    by (simp add: observation_def is_number_def)
  have fl: "basic_flags ?r =
      Inr \<lparr>has_rain = False, has_snow = False, is_windy = False, is_cold = False\<rparr>"
    by (simp add: basic_flags_def rain_flag_def snow_flag_def wind_flag_def cold_flag_def
        py_ge_def py_le_def PRECIP_THRESHOLD_MM_def WIND_STRONG_THRESHOLD_def)
  have st: "\<not> is_stormy ?r" by (simp add: is_stormy_def)
  have as: "assess_fields ?r True =
      Inr \<lparr>level = ''Low'', reasons = [], advice = advice_low, raw = ?r\<rparr>"
    by (simp add: assess_fields_result [OF fl] risk_score_def evaluate_risk_score
        evaluate_risk_reasons st is_clear_def convert_score_def)
  have pf: "parse_fields ascii_lower
         [''weather'' \<mapsto> JList [JObj [''main'' \<mapsto> JStr ''Clouds'',
                                         ''description'' \<mapsto> JStr ''overcast clouds'']],
          ''main'' \<mapsto> JObj [''temp'' \<mapsto> JFloat 12],
          ''wind'' \<mapsto> JObj [''speed'' \<mapsto> JFloat 3]] = Inr ?r"
    by (simp add: parse_fields_def parse_condition_def get_lower_def get_nested_def
        get_1h_def ascii_lower_def)
  show ?thesis
    by (simp add: obs as analyze_risk_def pf)
qed

text \<open>
  C4, as the code has it. The clear-conditions reason is added only when the main
  condition is "clear" and none of rain, snow, wind and cold fired. The list of reasons is
  empty exactly when the location is mountainous, no flag fired (storm included) and the
  main condition is not "clear"; in every other case it is non-empty.
\<close>

theorem reasons_empty_iff:
  assumes "observation r"
  shows "\<exists>f res. basic_flags r = Inr f \<and> assess_fields r m = Inr res
    \<and> (reasons res = [] \<longleftrightarrow>
          m \<and> \<not> has_rain f \<and> \<not> has_snow f \<and> \<not> is_windy f \<and> \<not> is_cold f
          \<and> \<not> is_stormy r \<and> weather_main r \<noteq> ''clear'')
    \<and> (clear_reason \<in> set (reasons res) \<longleftrightarrow>
          weather_main r = ''clear''
          \<and> \<not> has_rain f \<and> \<not> has_snow f \<and> \<not> is_windy f \<and> \<not> is_cold f)"
proof -
  from assms obtain f where f: "basic_flags r = Inr f"
    using observation_flags by blast
  from assess_fields_reasons [OF f, of m] obtain res where
    res: "assess_fields r m = Inr res" and
    rs: "reasons res =
         (if m then [] else [not_mountainous_note])
         @ (if has_rain f then [rain_reason r] else [])
         @ (if has_snow f then [snow_reason r] else [])
         @ (if is_windy f then [wind_reason r] else [])
         @ (if is_cold f then [cold_reason r] else [])
         @ (if is_stormy r then [storm_reason r] else [])
         @ (if is_clear r f then [clear_reason] else [])"
    by blast
  have e: "reasons res = [] \<longleftrightarrow>
          m \<and> \<not> has_rain f \<and> \<not> has_snow f \<and> \<not> is_windy f \<and> \<not> is_cold f
          \<and> \<not> is_stormy r \<and> weather_main r \<noteq> ''clear''"
    unfolding rs by (auto simp: is_clear_def)
  have c: "clear_reason \<in> set (reasons res) \<longleftrightarrow>
          weather_main r = ''clear''
          \<and> \<not> has_rain f \<and> \<not> has_snow f \<and> \<not> is_windy f \<and> \<not> is_cold f"
    unfolding rs by (auto simp: is_clear_def clear_reason_distinct)
  from f res e c show ?thesis by blast
qed

theorem reasons_empty_iff_witness:
  "observation \<lparr>temp_c = JFloat 4.5, wind_speed = JFloat 3.2, rain_1h = JFloat 0,
                 snow_1h = JFloat 0, weather_main = ''clear'', weather_desc = ''clear sky''\<rparr>
   \<and> (\<exists>res. assess_fields \<lparr>temp_c = JFloat 4.5, wind_speed = JFloat 3.2, rain_1h = JFloat 0,
                 snow_1h = JFloat 0, weather_main = ''clear'', weather_desc = ''clear sky''\<rparr>
               True = Inr res
          \<and> reasons res \<noteq> [] \<and> clear_reason \<in> set (reasons res))"
proof -
  let ?r = "\<lparr>temp_c = JFloat 4.5, wind_speed = JFloat 3.2, rain_1h = JFloat 0,
                 snow_1h = JFloat 0, weather_main = ''clear'', weather_desc = ''clear sky''\<rparr>"
  have obs: "observation ?r"
    by (simp add: observation_def is_number_def)
  have fl: "basic_flags ?r =
      Inr \<lparr>has_rain = False, has_snow = False, is_windy = False, is_cold = False\<rparr>"
    by (simp add: basic_flags_def rain_flag_def snow_flag_def wind_flag_def cold_flag_def
        py_ge_def py_le_def PRECIP_THRESHOLD_MM_def WIND_STRONG_THRESHOLD_def)
  from reasons_empty_iff [OF obs, of True] fl obs show ?thesis
    by auto
qed

text \<open>
  C5. On every observation the level returned is "Low", "Medium", "High", or "High"
  followed by the suffix " (mountain hazard less likely due to low elevation)". The suffix
  is there exactly when the mountainous flag is false and the level of the score is "High";
  the suffixed string starts with "High".
\<close>

theorem level_strings:
  assumes "observation r"
  shows "\<exists>f res. basic_flags r = Inr f \<and> assess_fields r m = Inr res
    \<and> level res \<in> {''Low'', ''Medium'', ''High'',
                      ''High'' @ '' (mountain hazard less likely due to low elevation)''}
    \<and> (level res = ''High'' @ '' (mountain hazard less likely due to low elevation)''
          \<longleftrightarrow> \<not> m \<and> fst (convert_score (risk_score r f m)) = ''High'')
    \<and> fst (convert_score (risk_score r f m)) \<in> {''Low'', ''Medium'', ''High''}
    \<and> take 4 (''High'' @ lowland_suffix) = ''High''"
proof -
  from assms obtain f where f: "basic_flags r = Inr f"
    using observation_flags by blast
  let ?b = "fst (convert_score (risk_score r f m))"
  let ?res = "\<lparr>level = (if \<not> m \<and> ?b = ''High'' then ?b @ lowland_suffix else ?b),
          reasons = (if m then [] else [not_mountainous_note])
                      @ fst (evaluate_risk r f (risk_weight m)),
          advice = snd (convert_score (risk_score r f m)),
          raw = r\<rparr>"
  have res: "assess_fields r m = Inr ?res"
    using f by (rule assess_fields_result)
  have b: "?b \<in> {''Low'', ''Medium'', ''High''}"
    by (simp add: convert_score_level)
  have l1: "level ?res \<in> {''Low'', ''Medium'', ''High'',
                      ''High'' @ '' (mountain hazard less likely due to low elevation)''}"
    using b by (auto simp: lowland_suffix_def)
  have l2: "level ?res = ''High'' @ '' (mountain hazard less likely due to low elevation)''
          \<longleftrightarrow> \<not> m \<and> ?b = ''High''"
    using b by (auto simp: lowland_suffix_def)
  have l3: "take 4 (''High'' @ lowland_suffix) = ''High''"
    by simp
  from f res b l1 l2 l3 show ?thesis by blast
qed

theorem level_strings_witness:
  "observation \<lparr>temp_c = JInt (- 5), wind_speed = JFloat 3, rain_1h = JFloat 0,
                 snow_1h = JFloat 2, weather_main = ''snow'',
                 weather_desc = ''snow storm''\<rparr>
   \<and> (\<exists>res. assess_fields \<lparr>temp_c = JInt (- 5), wind_speed = JFloat 3, rain_1h = JFloat 0,
                 snow_1h = JFloat 2, weather_main = ''snow'',
                 weather_desc = ''snow storm''\<rparr> False = Inr res
          \<and> level res = ''High (mountain hazard less likely due to low elevation)'')"
proof -
  let ?r = "\<lparr>temp_c = JInt (- 5), wind_speed = JFloat 3, rain_1h = JFloat 0,
                 snow_1h = JFloat 2, weather_main = ''snow'',
                 weather_desc = ''snow storm''\<rparr>"
  let ?f = "\<lparr>has_rain = False, has_snow = True, is_windy = False, is_cold = True\<rparr>"
  have obs: "observation ?r"
    by (simp add: observation_def is_number_def)
  have fl: "basic_flags ?r = Inr ?f"
    by (simp add: basic_flags_def rain_flag_def snow_flag_def wind_flag_def cold_flag_def
        py_ge_def py_le_def PRECIP_THRESHOLD_MM_def WIND_STRONG_THRESHOLD_def)
  have st: "is_stormy ?r" by (simp add: is_stormy_def)
  have sc: "risk_score ?r ?f False = 7.5"
    by (simp add: risk_score_def evaluate_risk_score st risk_weight_def)
  have hi: "fst (convert_score (risk_score ?r ?f False)) = ''High''"
    by (simp add: sc convert_score_level)
  from level_strings [OF obs, of False] fl hi obs show ?thesis
    by auto
qed

text \<open>
  C6. On every observation the reasons are, in this order: the note that the location is
  not mountainous (first, when the flag is false), then one reason for each of rain, snow,
  wind, cold and storm that fired, then the clear-conditions reason when it applies. The
  reasons of rain, snow, wind and cold carry the value that was measured.
\<close>

theorem reasons_order:
  assumes "observation r"
  shows "\<exists>f res. basic_flags r = Inr f \<and> assess_fields r m = Inr res
    \<and> reasons res =
         (if m then [] else [not_mountainous_note])
         @ (if has_rain f then [rain_reason r] else [])
         @ (if has_snow f then [snow_reason r] else [])
         @ (if is_windy f then [wind_reason r] else [])
         @ (if is_cold f then [cold_reason r] else [])
         @ (if is_stormy r then [storm_reason r] else [])
         @ (if is_clear r f then [clear_reason] else [])
    \<and> (if m then True else reasons res ! 0 = not_mountainous_note)
    \<and> Val (rain_1h r) \<in> set (rain_reason r) \<and> Val (snow_1h r) \<in> set (snow_reason r)
    \<and> Val (wind_speed r) \<in> set (wind_reason r) \<and> Val (temp_c r) \<in> set (cold_reason r)"
proof -
  from assms obtain f where f: "basic_flags r = Inr f"
    using observation_flags by blast
  from assess_fields_reasons [OF f, of m] obtain res where
    res: "assess_fields r m = Inr res" and
    rs: "reasons res =
         (if m then [] else [not_mountainous_note])
         @ (if has_rain f then [rain_reason r] else [])
         @ (if has_snow f then [snow_reason r] else [])
         @ (if is_windy f then [wind_reason r] else [])
         @ (if is_cold f then [cold_reason r] else [])
         @ (if is_stormy r then [storm_reason r] else [])
         @ (if is_clear r f then [clear_reason] else [])"
    by blast
  have hd: "if m then True else reasons res ! 0 = not_mountainous_note"
    unfolding rs by simp
  have v: "Val (rain_1h r) \<in> set (rain_reason r) \<and> Val (snow_1h r) \<in> set (snow_reason r)
    \<and> Val (wind_speed r) \<in> set (wind_reason r) \<and> Val (temp_c r) \<in> set (cold_reason r)"
    by (simp add: rain_reason_def snow_reason_def wind_reason_def cold_reason_def)
  from f res rs hd v show ?thesis by blast
qed

theorem reasons_order_witness:
  "observation \<lparr>temp_c = JInt (- 5), wind_speed = JFloat 12, rain_1h = JFloat 0.3,
                 snow_1h = JFloat 2, weather_main = ''snow'',
                 weather_desc = ''snow storm''\<rparr>
   \<and> (\<exists>res. assess_fields \<lparr>temp_c = JInt (- 5), wind_speed = JFloat 12, rain_1h = JFloat 0.3,
                 snow_1h = JFloat 2, weather_main = ''snow'',
                 weather_desc = ''snow storm''\<rparr> False = Inr res
          \<and> reasons res =
              [[Lit (''Location is not identified as mountainous (lower elevation or user selected). ''
                 @ ''Risk is assessed for non-mountain conditions.'')],
               [Lit ''Precipitation detected (rain ~ '', Val (JFloat 0.3), Lit '' mm in last hour).''],
               [Lit ''Snow detected (snow ~ '', Val (JFloat 2), Lit '' mm in last hour).''],
               [Lit ''Strong wind (~'', Val (JFloat 12), Lit '' m/s).''],
               [Lit ''Low temperature ('', Val (JInt (- 5)), Lit ('' '' @ degree_sign @ ''C).'')],
               [Lit ''Thunderstorm / storm conditions reported: snow storm.'']])"
proof -
  let ?r = "\<lparr>temp_c = JInt (- 5), wind_speed = JFloat 12, rain_1h = JFloat 0.3,
                 snow_1h = JFloat 2, weather_main = ''snow'',
                 weather_desc = ''snow storm''\<rparr>"
  let ?f = "\<lparr>has_rain = True, has_snow = True, is_windy = True, is_cold = True\<rparr>"
  have obs: "observation ?r"
    by (simp add: observation_def is_number_def)
  have fl: "basic_flags ?r = Inr ?f"
    by (simp add: basic_flags_def rain_flag_def snow_flag_def wind_flag_def cold_flag_def
        py_ge_def py_le_def PRECIP_THRESHOLD_MM_def WIND_STRONG_THRESHOLD_def)
  have st: "is_stormy ?r" by (simp add: is_stormy_def)
  have cl: "\<not> is_clear ?r ?f" by (simp add: is_clear_def)
  from reasons_order [OF obs, of False] fl st cl obs show ?thesis
    by (auto simp: not_mountainous_note_def rain_reason_def snow_reason_def wind_reason_def
        cold_reason_def storm_reason_def)
qed

text \<open>
  C7. On every observation and for either value of the mountainous flag the evaluation
  returns a result and raises no error; the result keeps the fields it was computed from.
  So \<open>analyze_risk\<close> returns that result on every payload that parses to the observation.
\<close>

theorem evaluate_total:
  assumes "observation r"
  shows "\<exists>res. assess_fields r m = Inr res \<and> raw res = r
     \<and> (\<forall>e. assess_fields r m \<noteq> Inl e)
     \<and> (\<forall>lower weather_json. parse_fields lower weather_json = Inr r
           \<longrightarrow> analyze_risk lower weather_json m = Inr res)"
proof -
  from assess_fields_observation [OF assms, of m] obtain res where
    res: "assess_fields r m = Inr res" "raw res = r" by blast
  then have "\<forall>lower weather_json. parse_fields lower weather_json = Inr r
           \<longrightarrow> analyze_risk lower weather_json m = Inr res"
    by (simp add: analyze_risk_def)
  with res show ?thesis by simp
qed

theorem evaluate_total_witness:
  "observation \<lparr>temp_c = JNull, wind_speed = JFloat 0, rain_1h = JFloat 0, snow_1h = JFloat 0,
          weather_main = [], weather_desc = []\<rparr>
   \<and> (\<exists>res. analyze_risk ascii_lower Map.empty False = Inr res
          \<and> raw res = \<lparr>temp_c = JNull, wind_speed = JFloat 0, rain_1h = JFloat 0,
                        snow_1h = JFloat 0, weather_main = [], weather_desc = []\<rparr>)"
proof -
  let ?r = "\<lparr>temp_c = JNull, wind_speed = JFloat 0, rain_1h = JFloat 0, snow_1h = JFloat 0,
          weather_main = [], weather_desc = []\<rparr>"
  have obs: "observation ?r"
    by (simp add: observation_def is_number_def)
  from evaluate_total [OF obs, of False] obs parse_fields_absent [of ascii_lower]
  show ?thesis by blast
qed

text \<open>
  C8 as stated, for every observation, fails: when the main condition already contains
  "rain" the rain flag is true at 0.05 as at 0.5, and the score is 4 at both.
\<close>

theorem rain_flip_counterexample:
  "observation \<lparr>temp_c = JNull, wind_speed = JFloat 0, rain_1h = JFloat 0.05,
                 snow_1h = JFloat 0, weather_main = ''rain'', weather_desc = ''light rain''\<rparr>
   \<and> basic_flags \<lparr>temp_c = JNull, wind_speed = JFloat 0, rain_1h = JFloat 0.05,
                 snow_1h = JFloat 0, weather_main = ''rain'', weather_desc = ''light rain''\<rparr>
       = Inr \<lparr>has_rain = True, has_snow = False, is_windy = False, is_cold = False\<rparr>
   \<and> basic_flags \<lparr>temp_c = JNull, wind_speed = JFloat 0, rain_1h = JFloat 0.5,
                 snow_1h = JFloat 0, weather_main = ''rain'', weather_desc = ''light rain''\<rparr>
       = Inr \<lparr>has_rain = True, has_snow = False, is_windy = False, is_cold = False\<rparr>
   \<and> risk_score \<lparr>temp_c = JNull, wind_speed = JFloat 0, rain_1h = JFloat 0.05,
                 snow_1h = JFloat 0, weather_main = ''rain'', weather_desc = ''light rain''\<rparr>
         \<lparr>has_rain = True, has_snow = False, is_windy = False, is_cold = False\<rparr> True = 4
   \<and> risk_score \<lparr>temp_c = JNull, wind_speed = JFloat 0, rain_1h = JFloat 0.5,
                 snow_1h = JFloat 0, weather_main = ''rain'', weather_desc = ''light rain''\<rparr>
         \<lparr>has_rain = True, has_snow = False, is_windy = False, is_cold = False\<rparr> True = 4"
  by (simp add: observation_def is_number_def basic_flags_def rain_flag_def snow_flag_def
      wind_flag_def cold_flag_def py_ge_def PRECIP_THRESHOLD_MM_def WIND_STRONG_THRESHOLD_def
      risk_score_def evaluate_risk_score risk_weight_def is_stormy_def)

text \<open>
  C8, as the code has it. On every observation whose main condition does not contain
  "rain" and whose description does not contain "shower", with the mountainous flag true,
  changing the rain of the last hour from 0.05 to 0.5 and nothing else turns the rain flag
  from false to true and raises the score by exactly 2 times 2.0, which is 4.
\<close>

theorem rain_flip:
  assumes "observation r"
    and "\<not> str_in ''rain'' (weather_main r)" and "\<not> str_in ''shower'' (weather_desc r)"
  shows "\<exists>f1 f2. basic_flags (r\<lparr>rain_1h := JFloat 0.05\<rparr>) = Inr f1
     \<and> basic_flags (r\<lparr>rain_1h := JFloat 0.5\<rparr>) = Inr f2
     \<and> \<not> has_rain f1 \<and> has_rain f2
     \<and> risk_score (r\<lparr>rain_1h := JFloat 0.5\<rparr>) f2 True
         = risk_score (r\<lparr>rain_1h := JFloat 0.05\<rparr>) f1 True + 2 * 2.0
     \<and> risk_score (r\<lparr>rain_1h := JFloat 0.05\<rparr>) f1 True
         < risk_score (r\<lparr>rain_1h := JFloat 0.5\<rparr>) f2 True"
proof -
  let ?r1 = "r\<lparr>rain_1h := JFloat 0.05\<rparr>" and ?r2 = "r\<lparr>rain_1h := JFloat 0.5\<rparr>"
  from assms(1) obtain f where f: "basic_flags r = Inr f"
    using observation_flags by blast
  let ?f1 = "\<lparr>has_rain = False, has_snow = has_snow f, is_windy = is_windy f,
              is_cold = is_cold f\<rparr>"
  let ?f2 = "\<lparr>has_rain = True, has_snow = has_snow f, is_windy = is_windy f,
              is_cold = is_cold f\<rparr>"
  have rf1: "rain_flag ?r1 = Inr False"
    using assms(2,3) by (simp add: rain_flag_def py_ge_def PRECIP_THRESHOLD_MM_def)
  have rf2: "rain_flag ?r2 = Inr True"
    by (simp add: rain_flag_def py_ge_def PRECIP_THRESHOLD_MM_def)
  have same: "snow_flag ?r1 = snow_flag r" "wind_flag ?r1 = wind_flag r"
      "cold_flag ?r1 = cold_flag r" "snow_flag ?r2 = snow_flag r"
      "wind_flag ?r2 = wind_flag r" "cold_flag ?r2 = cold_flag r"
    by (simp_all add: snow_flag_def wind_flag_def cold_flag_def)
  have f1: "basic_flags ?r1 = Inr ?f1"
    unfolding basic_flags_def rf1 same basic_flags_InrD [OF f] by simp
  have f2: "basic_flags ?r2 = Inr ?f2"
    unfolding basic_flags_def rf2 same basic_flags_InrD [OF f] by simp
  have st: "is_stormy ?r1 = is_stormy r" "is_stormy ?r2 = is_stormy r"
    by (simp_all add: is_stormy_def)
  have d: "risk_score ?r2 ?f2 True = risk_score ?r1 ?f1 True + 2 * 2.0"
    unfolding risk_score_def evaluate_risk_score st by (simp add: risk_weight_def)
  then have lt: "risk_score ?r1 ?f1 True < risk_score ?r2 ?f2 True"
    by simp
  have h: "\<not> has_rain ?f1 \<and> has_rain ?f2" by simp
  from f1 f2 h d lt show ?thesis by blast
qed

theorem rain_flip_witness:
  "observation \<lparr>temp_c = JFloat 4.5, wind_speed = JFloat 3.2, rain_1h = JFloat 0,
                 snow_1h = JFloat 0, weather_main = ''clouds'', weather_desc = ''few clouds''\<rparr>
   \<and> \<not> str_in ''rain'' ''clouds'' \<and> \<not> str_in ''shower'' ''few clouds''
   \<and> (\<exists>f1 f2.
        basic_flags \<lparr>temp_c = JFloat 4.5, wind_speed = JFloat 3.2, rain_1h = JFloat 0.05,
                 snow_1h = JFloat 0, weather_main = ''clouds'', weather_desc = ''few clouds''\<rparr>
          = Inr f1
      \<and> basic_flags \<lparr>temp_c = JFloat 4.5, wind_speed = JFloat 3.2, rain_1h = JFloat 0.5,
                 snow_1h = JFloat 0, weather_main = ''clouds'', weather_desc = ''few clouds''\<rparr>
          = Inr f2
      \<and> \<not> has_rain f1 \<and> has_rain f2
      \<and> risk_score \<lparr>temp_c = JFloat 4.5, wind_speed = JFloat 3.2, rain_1h = JFloat 0.05,
                 snow_1h = JFloat 0, weather_main = ''clouds'', weather_desc = ''few clouds''\<rparr>
            f1 True = 0
      \<and> risk_score \<lparr>temp_c = JFloat 4.5, wind_speed = JFloat 3.2, rain_1h = JFloat 0.5,
                 snow_1h = JFloat 0, weather_main = ''clouds'', weather_desc = ''few clouds''\<rparr>
            f2 True = 4)"
proof -
  let ?r = "\<lparr>temp_c = JFloat 4.5, wind_speed = JFloat 3.2, rain_1h = JFloat 0,
                 snow_1h = JFloat 0, weather_main = ''clouds'', weather_desc = ''few clouds''\<rparr>"
  let ?r1 = "\<lparr>temp_c = JFloat 4.5, wind_speed = JFloat 3.2, rain_1h = JFloat 0.05,
                 snow_1h = JFloat 0, weather_main = ''clouds'', weather_desc = ''few clouds''\<rparr>"
  let ?f1 = "\<lparr>has_rain = False, has_snow = False, is_windy = False, is_cold = False\<rparr>"
  have obs: "observation ?r"
    by (simp add: observation_def is_number_def)
  have a: "\<not> str_in ''rain'' (weather_main ?r)" and b: "\<not> str_in ''shower'' (weather_desc ?r)"
    by simp_all
  have fl: "basic_flags ?r1 = Inr ?f1"
    by (simp add: basic_flags_def rain_flag_def snow_flag_def wind_flag_def cold_flag_def
        py_ge_def py_le_def PRECIP_THRESHOLD_MM_def WIND_STRONG_THRESHOLD_def)
  have st: "\<not> is_stormy ?r1" by (simp add: is_stormy_def)
  have s0: "risk_score ?r1 ?f1 True = 0"
    using st by (simp add: risk_score_def evaluate_risk_score)
  from rain_flip [OF obs a b] fl s0 obs show ?thesis
    by auto
qed

text \<open>
  C9. On every observation the score with the mountainous flag false is at most the score
  with the flag true: the flags are the same and the weight is 1.0 against 2.0, so the
  second score is twice the first.
\<close>

theorem lowland_score_le:
  assumes "observation r"
  shows "\<exists>f. basic_flags r = Inr f
    \<and> risk_score r f False \<le> risk_score r f True
    \<and> risk_score r f True = 2 * risk_score r f False"
proof -
  from assms obtain f where f: "basic_flags r = Inr f"
    using observation_flags by blast
  have d: "risk_score r f True = 2 * risk_score r f False"
    by (simp add: risk_score_def evaluate_risk_score risk_weight_def)
  have "0 \<le> risk_score r f False"
    by (simp add: risk_score_def evaluate_risk_score risk_weight_def)
  with d have "risk_score r f False \<le> risk_score r f True" by simp
  with f d show ?thesis by blast
qed

theorem lowland_score_le_witness:
  "observation \<lparr>temp_c = JInt (- 5), wind_speed = JFloat 3, rain_1h = JFloat 0,
                 snow_1h = JFloat 2, weather_main = ''snow'', weather_desc = ''light snow''\<rparr>
   \<and> (\<exists>f. basic_flags \<lparr>temp_c = JInt (- 5), wind_speed = JFloat 3, rain_1h = JFloat 0,
                 snow_1h = JFloat 2, weather_main = ''snow'', weather_desc = ''light snow''\<rparr>
             = Inr f
        \<and> risk_score \<lparr>temp_c = JInt (- 5), wind_speed = JFloat 3, rain_1h = JFloat 0,
                 snow_1h = JFloat 2, weather_main = ''snow'', weather_desc = ''light snow''\<rparr>
             f False = 4.5
        \<and> risk_score \<lparr>temp_c = JInt (- 5), wind_speed = JFloat 3, rain_1h = JFloat 0,
                 snow_1h = JFloat 2, weather_main = ''snow'', weather_desc = ''light snow''\<rparr>
             f True = 9)"
proof -
  let ?r = "\<lparr>temp_c = JInt (- 5), wind_speed = JFloat 3, rain_1h = JFloat 0,
                 snow_1h = JFloat 2, weather_main = ''snow'', weather_desc = ''light snow''\<rparr>"
  let ?f = "\<lparr>has_rain = False, has_snow = True, is_windy = False, is_cold = True\<rparr>"
  have obs: "observation ?r"
    by (simp add: observation_def is_number_def)
  have fl: "basic_flags ?r = Inr ?f"
    by (simp add: basic_flags_def rain_flag_def snow_flag_def wind_flag_def cold_flag_def
        py_ge_def py_le_def PRECIP_THRESHOLD_MM_def WIND_STRONG_THRESHOLD_def)
  have st: "\<not> is_stormy ?r" by (simp add: is_stormy_def)
  have lo: "risk_score ?r ?f False = 4.5"
    by (simp add: risk_score_def evaluate_risk_score st risk_weight_def)
  from lowland_score_le [OF obs] fl lo obs show ?thesis by auto
qed

text \<open>
  C10. When the section "rain" (or "snow") of the payload is a dictionary without the key
  "1h", as both are in the demo payload, \<open>analyze_risk\<close> returns what it returns on the
  payload without that section, and the rain (or snow) of the last hour in the returned
  fields is 0.0.
\<close>

theorem empty_1h_as_absent:
  assumes "sect = ''rain'' \<or> sect = ''snow''"
    and "weather_json sect = Some (JObj d)" and "d ''1h'' = None"
  shows "analyze_risk lower weather_json m = analyze_risk lower (weather_json(sect := None)) m
    \<and> (\<forall>r. parse_fields lower weather_json = Inr r \<longrightarrow>
          (if sect = ''rain'' then rain_1h r else snow_1h r) = JFloat 0.0)
    \<and> (\<forall>res. analyze_risk lower weather_json m = Inr res \<longrightarrow>
          (if sect = ''rain'' then rain_1h (raw res) else snow_1h (raw res)) = JFloat 0.0)"
proof -
  have eq: "analyze_risk lower weather_json m = analyze_risk lower (weather_json(sect := None)) m"
    using parse_fields_drop_empty [of sect weather_json d lower] assms
    by (simp add: analyze_risk_def)
  have p: "(if sect = ''rain'' then rain_1h r else snow_1h r) = JFloat 0.0"
    if "parse_fields lower weather_json = Inr r" for r
    using assms(1) parse_fields_rain [OF that] parse_fields_snow [OF that]
      get_1h_empty(1) [of weather_json sect d] assms(2,3)
    by auto
  have a: "(if sect = ''rain'' then rain_1h (raw res) else snow_1h (raw res)) = JFloat 0.0"
    if "analyze_risk lower weather_json m = Inr res" for res
  proof (cases "parse_fields lower weather_json")
    case (Inl e)
    with that show ?thesis by (simp add: analyze_risk_def)
  next
    case (Inr r)
    with that have "assess_fields r m = Inr res" by (simp add: analyze_risk_def)
    then have "raw res = r" by (rule assess_fields_raw)
    with p [OF Inr] show ?thesis by (simp split: if_splits)
  qed
  from eq p a show ?thesis by blast
qed

theorem empty_1h_as_absent_witness:
  "demo_weather ''rain'' = Some (JObj Map.empty) \<and> demo_weather ''snow'' = Some (JObj Map.empty)
   \<and> analyze_risk ascii_lower (demo_weather(''rain'' := None)) True
       = analyze_risk ascii_lower demo_weather True
   \<and> analyze_risk ascii_lower (demo_weather(''snow'' := None)) True
       = analyze_risk ascii_lower demo_weather True
   \<and> analyze_risk ascii_lower demo_weather True
       = Inr \<lparr>level = ''Low'', reasons = [clear_reason], advice = advice_low,
              raw = \<lparr>temp_c = JFloat 4.5, wind_speed = JFloat 3.2, rain_1h = JFloat 0.0,
                      snow_1h = JFloat 0.0, weather_main = ''clear'',
                      weather_desc = ''clear sky''\<rparr>\<rparr>"
proof -
  have r: "demo_weather ''rain'' = Some (JObj Map.empty)"
    and s: "demo_weather ''snow'' = Some (JObj Map.empty)"
    by (simp_all add: demo_weather_def)
  have e: "(Map.empty :: string \<Rightarrow> json option) ''1h'' = None" by simp
  have pf: "parse_fields ascii_lower demo_weather =
      Inr \<lparr>temp_c = JFloat 4.5, wind_speed = JFloat 3.2, rain_1h = JFloat 0.0,
           snow_1h = JFloat 0.0, weather_main = ''clear'', weather_desc = ''clear sky''\<rparr>"
    by (simp add: parse_fields_def parse_condition_def get_lower_def get_nested_def
        get_1h_def demo_weather_def ascii_lower_def)
  have an: "analyze_risk ascii_lower demo_weather True
       = Inr \<lparr>level = ''Low'', reasons = [clear_reason], advice = advice_low,
              raw = \<lparr>temp_c = JFloat 4.5, wind_speed = JFloat 3.2, rain_1h = JFloat 0.0,
                      snow_1h = JFloat 0.0, weather_main = ''clear'',
                      weather_desc = ''clear sky''\<rparr>\<rparr>"
    by (simp add: analyze_risk_def pf assess_fields_def basic_flags_def rain_flag_def
        snow_flag_def wind_flag_def cold_flag_def py_ge_def py_le_def PRECIP_THRESHOLD_MM_def
        WIND_STRONG_THRESHOLD_def evaluate_risk_def hazard_def is_stormy_def is_clear_def
        convert_score_def risk_weight_def)
  from empty_1h_as_absent [of "''rain''" demo_weather Map.empty ascii_lower True]
    empty_1h_as_absent [of "''snow''" demo_weather Map.empty ascii_lower True] r s e an
  show ?thesis by simp
qed

end
